theory Spec2Isabelle
  imports Complex_Main "HOL-Library.AList" "HOL-Library.Multiset"
begin

section \<open>Values and library functions\<close>

text \<open>
  The batch processor exchanges JSON values with the completion client. Python's
  \<^verbatim>\<open>dict\<close> keeps insertion order, so an object is an association list.
  Python's floats are modelled by the reals: rounding is not modelled.
\<close>

datatype json =
    JNull
  | JBool bool
  | JInt int
  | JFloat real
  | JStr string
  | JArr "json list"
  | JObj "(string \<times> json) list"

text \<open>
  \<^verbatim>\<open>json.loads\<close> and \<^verbatim>\<open>json.dumps\<close> are library functions: they are
  parameters of the model. \<open>json_loads\<close> gives \<open>None\<close> where the library raises
  \<^verbatim>\<open>JSONDecodeError\<close>.
\<close>

record pylib =
  json_loads :: "string \<Rightarrow> json option"
  json_dumps :: "json \<Rightarrow> string"

datatype py_error =
    JSONDecodeError
  | TypeError
  | AttributeError
  | KeyError
  | ValueError
  | OSError
  | APIError

text \<open>Python's truth value of a decoded JSON value (\<^verbatim>\<open>not results\<close>).\<close>

fun truthy :: "json \<Rightarrow> bool" where
  "truthy JNull = False"
| "truthy (JBool b) = b"
| "truthy (JInt n) = (n \<noteq> 0)"
| "truthy (JFloat x) = (x \<noteq> 0)"
| "truthy (JStr s) = (s \<noteq> [])"
| "truthy (JArr xs) = (xs \<noteq> [])"
| "truthy (JObj kvs) = (kvs \<noteq> [])"

text \<open>\<^verbatim>\<open>d[k]\<close> for a string key: only a dict that has the key answers.\<close>

fun getitem :: "json \<Rightarrow> string \<Rightarrow> py_error + json" where
  "getitem (JObj kvs) k = (case map_of kvs k of None \<Rightarrow> Inl KeyError | Some v \<Rightarrow> Inr v)"
| "getitem _ k = Inl TypeError"

text \<open>\<^verbatim>\<open>d.get(k, default)\<close>: a value that is not a dict has no \<^verbatim>\<open>get\<close>.\<close>

fun dict_get :: "json \<Rightarrow> string \<Rightarrow> json \<Rightarrow> py_error + json" where
  "dict_get (JObj kvs) k d = (case map_of kvs k of None \<Rightarrow> Inr d | Some v \<Rightarrow> Inr v)"
| "dict_get _ k d = Inl AttributeError"

section \<open>Work items and the assembled request\<close>

text \<open>
  One row of \<^verbatim>\<open>batches_df\<close>, as \<^verbatim>\<open>build_batches\<close> makes it. The column
  \<^verbatim>\<open>record_data\<close> is not read by the processor and is left out.
  \<^verbatim>\<open>question_context\<close> is the list of question records, the same for every row.
\<close>

record batch_row =
  batch_id :: int
  record_json :: string
  source_file :: string
  question_context :: "json list"
  response_format :: json
  system_role :: string

record message =
  role :: string
  content :: json

definition base_messages :: "json \<Rightarrow> string \<Rightarrow> message list" where
  "base_messages role_content record_json_str =
     [\<lparr>role = ''developer'', content = role_content\<rparr>,
      \<lparr>role = ''user'',
       content = JStr ''Here is the record I want reviewed. Provide a detailed response.''\<rparr>,
      \<lparr>role = ''user'', content = JStr (''['' @ record_json_str @ '']'')\<rparr>]"

definition context_messages :: "pylib \<Rightarrow> json list \<Rightarrow> message list" where
  "context_messages L qc =
     [\<lparr>role = ''developer'',
       content = JStr ''Here is information you can use to help create your response:''\<rparr>,
      \<lparr>role = ''developer'', content = JStr (json_dumps L (JArr qc))\<rparr>]"

text \<open>
  Lines 139 to 158 of \<^verbatim>\<open>process_single_batch\<close>: the system role is decoded, its
  \<^verbatim>\<open>content\<close> is read, and the context messages are added only when the question
  context is a non-empty list.
\<close>

definition build_messages :: "pylib \<Rightarrow> batch_row \<Rightarrow> py_error + message list" where
  "build_messages L batch =
     (case json_loads L (system_role batch) of
        None \<Rightarrow> Inl JSONDecodeError
      | Some system_role_data \<Rightarrow>
          (case getitem system_role_data ''content'' of
             Inl e \<Rightarrow> Inl e
           | Inr role_content \<Rightarrow>
               (if question_context batch \<noteq> [] \<and> length (question_context batch) > 0
                then Inr (base_messages role_content (record_json batch)
                          @ context_messages L (question_context batch))
                else Inr (base_messages role_content (record_json batch)))))"

section \<open>The completion client's answer and its price\<close>

text \<open>
  What \<^verbatim>\<open>client.beta.chat.completions.parse\<close> returns, as far as the processor
  reads it: the content of the first choice (which may be absent), its finish reason and
  refusal, and the two token counts of the usage block. A first choice and a usage block
  are always there, as the contract of the client says. The call may raise instead.
\<close>

record completion =
  message_content :: "string option"
  finish_reason :: string
  refusal :: "string option"
  prompt_tokens :: int
  completion_tokens :: int

datatype api_outcome = ApiRaises | ApiReturns completion

text \<open>A cell of the pricing table: \<^verbatim>\<open>float\<close> accepts it or raises.\<close>

datatype cell = Number real | NotNumeric

fun py_float :: "cell \<Rightarrow> py_error + real" where
  "py_float (Number x) = Inr x"
| "py_float NotNumeric = Inl ValueError"

record pricing_row =
  Model :: string
  Input_Cost_Per_Million :: cell
  Output_Cost_Per_Million :: cell

text \<open>Lines 234 to 243: the first pricing row of the model, or no cost at all.\<close>

definition calculate_cost :: "pricing_row list \<Rightarrow> string \<Rightarrow> completion \<Rightarrow> py_error + real" where
  "calculate_cost pricing_df model_name c =
     (case filter (\<lambda>r. Model r = model_name) pricing_df of
        [] \<Rightarrow> Inr 0
      | pricing_row # _ \<Rightarrow>
          (case py_float (Input_Cost_Per_Million pricing_row) of
             Inl e \<Rightarrow> Inl e
           | Inr input_cost_rate \<Rightarrow>
               (case py_float (Output_Cost_Per_Million pricing_row) of
                  Inl e \<Rightarrow> Inl e
                | Inr output_cost_rate \<Rightarrow>
                    Inr ((real_of_int (prompt_tokens c) / 1000000) * input_cost_rate
                         + (real_of_int (completion_tokens c) / 1000000) * output_cost_rate))))"

section \<open>Decoding the answer\<close>

datatype parsed =
    Raised py_error
  | Unparseable
  | Results json json

text \<open>
  Lines 177 to 183. Only \<^verbatim>\<open>JSONDecodeError\<close> is caught by the inner handler:
  a missing content (\<^verbatim>\<open>json.loads(None)\<close>) and a decoded value without
  \<^verbatim>\<open>get\<close> raise to the outer handler.
\<close>

definition parse_response :: "pylib \<Rightarrow> completion \<Rightarrow> parsed" where
  "parse_response L c =
     (case message_content c of
        None \<Rightarrow> Raised TypeError
      | Some choice \<Rightarrow>
          (case json_loads L choice of
             None \<Rightarrow> Unparseable
           | Some response_data \<Rightarrow>
               (case dict_get response_data ''results'' (JArr []) of
                  Inl e \<Rightarrow> Raised e
                | Inr results \<Rightarrow> Results response_data results)))"

text \<open>Line 246: \<^verbatim>\<open>results[0] if len(results) > 0 else {}\<close>.\<close>

fun first_result :: "json \<Rightarrow> py_error + json" where
  "first_result (JArr []) = Inr (JObj [])"
| "first_result (JArr (x # xs)) = Inr x"
| "first_result (JObj []) = Inr (JObj [])"
| "first_result (JObj (kv # kvs)) = Inl KeyError"
| "first_result (JStr []) = Inr (JObj [])"
| "first_result (JStr (ch # s)) = Inr (JStr [ch])"
| "first_result _ = Inl TypeError"

text \<open>Lines 246 to 250: the first result with the provenance fields stored in it.\<close>

definition make_result_row :: "batch_row \<Rightarrow> json \<Rightarrow> py_error + (string \<times> json) list" where
  "make_result_row batch results =
     (case first_result results of
        Inl e \<Rightarrow> Inl e
      | Inr (JObj kvs) \<Rightarrow>
          Inr (AList.update ''batch_id'' (JInt (batch_id batch))
                (AList.update ''source_file'' (JStr (source_file batch)) kvs))
      | Inr _ \<Rightarrow> Inl TypeError)"

text \<open>Lines 193 to 196 and 205: the response format as a dict, and the schema name read from it.\<close>

definition response_format_dict :: "pylib \<Rightarrow> json \<Rightarrow> py_error + json" where
  "response_format_dict L rf =
     (case rf of
        JStr str \<Rightarrow> (case json_loads L str of None \<Rightarrow> Inl JSONDecodeError | Some d \<Rightarrow> Inr d)
      | _ \<Rightarrow> Inr rf)"

definition response_format_name :: "json \<Rightarrow> py_error + json" where
  "response_format_name rfd =
     (case dict_get rfd ''json_schema'' (JObj []) of
        Inl e \<Rightarrow> Inl e
      | Inr js \<Rightarrow> dict_get js ''name'' (JStr ''unknown''))"

section \<open>Shared state of a run\<close>

text \<open>The dict \<^verbatim>\<open>state\<close> of \<^verbatim>\<open>process_batches\<close>; Python's integers are unbounded.\<close>

record run_state =
  completed :: int
  failed :: int
  in_flight :: int
  total_cost :: real
  total_input_tokens :: int
  total_output_tokens :: int
  csv_file_initialized :: bool

text \<open>
  The output file, record by record. A data line is kept with the keys of the row it was
  written from (\<^verbatim>\<open>to_csv\<close> writes the values in that order). A write either
  succeeds or raises; what a raising write leaves in the file is not decided by this
  program, so it comes with the outcome.
\<close>

datatype csv_line = Header "string list" | Data "(string \<times> json) list"

datatype write_outcome = WriteOk | WriteRaises "csv_line list option"

record debug_dump =
  dump_messages :: "message list"
  dump_response_format :: json
  dump_content :: "string option"
  dump_finish_reason :: string
  dump_refusal :: "string option"

text \<open>
  What the environment decides while one answer is handled: the clock reading that names
  the debug folder, whether the debug file can be written, and the outcome of the write to
  the output file.
\<close>

record io_outcome =
  now :: string
  debug_dump_ok :: bool
  sink :: write_outcome

datatype log_level = DEBUG | INFO | WARNING | ERROR

datatype log_message =
    No_batches_to_process
  | Job_configuration_not_in_dict
  | Job_configuration_not_found string
  | Pricing_not_in_dict
  | Failed_to_load_API_key
  | Error_in_parallel_processing py_error
  | API_response int
  | Failed_to_parse_response int
  | Empty_results int
  | Error_processing_batch int py_error
  | Processing_complete int int int real

datatype failure = ParseFailure | EmptyResult | Uncaught py_error

text \<open>
  Where one \<^verbatim>\<open>process_single_batch\<close> task stands. \<open>Created\<close>: not yet run.
  \<open>Waiting\<close>: past the first check of the flag, at the semaphore. \<open>Holding\<close>: holds a
  slot, before the second check. \<open>Dispatched\<close>: counted in flight, awaiting the client
  with these messages. The last three are the ways a task ends; \<open>Completed\<close> keeps the
  answer it was given, for the statements about cost.
\<close>

datatype task =
    Created
  | Waiting
  | Holding
  | Dispatched "message list"
  | Abandoned
  | Completed completion
  | Failed failure

record sys =
  shutdown_requested :: bool
  spawning :: bool
  semaphore :: int
  state :: run_state
  tasks :: "(batch_row \<times> task) list"
  output_file :: "csv_line list option"
  debug_files :: "((string \<times> string \<times> int) \<times> debug_dump) list"
  logged :: "(log_level \<times> log_message) list"

record config =
  lib :: pylib
  batches_df :: "batch_row list"
  selected_job_name :: string
  model_name :: string
  temperature :: real
  pricing_df :: "pricing_row list"

section \<open>The body of one task\<close>

text \<open>
  Printing and logging are taken not to raise (the logger guards its own file writes), so
  a log call is an entry added to the log and the progress line is left out.
\<close>

definition log_add :: "log_level \<Rightarrow> log_message \<Rightarrow> sys \<Rightarrow> sys" where
  "log_add lvl msg s = s\<lparr>logged := logged s @ [(lvl, msg)]\<rparr>"

text \<open>The update of every failure path (lines 186 to 188, 229 to 231, 277 to 279).\<close>

definition count_failed :: "sys \<Rightarrow> sys" where
  "count_failed s =
     s\<lparr>state := (state s)\<lparr>failed := failed (state s) + 1,
                            in_flight := in_flight (state s) - 1\<rparr>\<rparr>"

text \<open>The update of the success path (lines 265 to 270).\<close>

definition count_completed :: "real \<Rightarrow> completion \<Rightarrow> sys \<Rightarrow> sys" where
  "count_completed cost c s =
     s\<lparr>state := (state s)\<lparr>completed := completed (state s) + 1,
                            in_flight := in_flight (state s) - 1,
                            total_cost := total_cost (state s) + cost,
                            total_input_tokens := total_input_tokens (state s) + prompt_tokens c,
                            total_output_tokens :=
                              total_output_tokens (state s) + completion_tokens c\<rparr>\<rparr>"

text \<open>
  Lines 253 to 262, inside \<^verbatim>\<open>csv_lock\<close>: the flag is read, the file is written with
  a header (mode \<^verbatim>\<open>w\<close>) or appended to, and the flag is set after a first write that
  succeeded.
\<close>

definition write_csv :: "(string \<times> json) list \<Rightarrow> write_outcome \<Rightarrow> sys \<Rightarrow> sys \<times> py_error option" where
  "write_csv result_row w s =
     (if \<not> csv_file_initialized (state s) then
        (case w of
           WriteOk \<Rightarrow>
             (s\<lparr>output_file := Some [Header (map fst result_row), Data result_row],
                state := (state s)\<lparr>csv_file_initialized := True\<rparr>\<rparr>, None)
         | WriteRaises left \<Rightarrow> (s\<lparr>output_file := left\<rparr>, Some OSError))
      else
        (case w of
           WriteOk \<Rightarrow>
             (s\<lparr>output_file :=
                  Some ((case output_file s of None \<Rightarrow> [] | Some ls \<Rightarrow> ls) @ [Data result_row])\<rparr>,
              None)
         | WriteRaises left \<Rightarrow> (s\<lparr>output_file := left\<rparr>, Some OSError)))"

text \<open>
  Lines 191 to 232, the branch \<^verbatim>\<open>if not results\<close>. The debug file is
  \<^verbatim>\<open>Logs/debug/{job}_{now}/batch_{batch_id}_empty_results.json\<close>: it is named by
  the job, the clock reading and the batch id.
\<close>

definition empty_results ::
  "config \<Rightarrow> batch_row \<Rightarrow> message list \<Rightarrow> completion \<Rightarrow> io_outcome \<Rightarrow> sys \<Rightarrow> sys \<times> (py_error + task)" where
  "empty_results cfg batch messages c io s =
     (case response_format_dict (lib cfg) (response_format batch) of
        Inl e \<Rightarrow> (s, Inl e)
      | Inr rfd \<Rightarrow>
          (case response_format_name rfd of
             Inl e \<Rightarrow> (s, Inl e)
           | Inr name \<Rightarrow>
               (let s1 = log_add ERROR (Empty_results (batch_id batch)) s in
                if debug_dump_ok io then
                  (count_failed
                     (s1\<lparr>debug_files :=
                           AList.update (selected_job_name cfg, now io, batch_id batch)
                             \<lparr>dump_messages = messages,
                              dump_response_format = rfd,
                              dump_content = message_content c,
                              dump_finish_reason = finish_reason c,
                              dump_refusal = refusal c\<rparr>
                             (debug_files s1)\<rparr>),
                   Inr (Failed EmptyResult))
                else (s1, Inl OSError))))"

text \<open>
  Lines 168 to 270: what the task does with an answer of the client, inside the outer
  \<^verbatim>\<open>try\<close>. \<open>Inl e\<close> is an exception on its way to the outer handler; \<open>Inr t\<close> is
  how the task ended otherwise.
\<close>

definition on_completion ::
  "config \<Rightarrow> batch_row \<Rightarrow> message list \<Rightarrow> completion \<Rightarrow> io_outcome \<Rightarrow> sys \<Rightarrow> sys \<times> (py_error + task)" where
  "on_completion cfg batch messages c io s0 =
     (let s = log_add DEBUG (API_response (batch_id batch)) s0 in
      case parse_response (lib cfg) c of
        Raised e \<Rightarrow> (s, Inl e)
      | Unparseable \<Rightarrow>
          (count_failed (log_add ERROR (Failed_to_parse_response (batch_id batch)) s),
           Inr (Failed ParseFailure))
      | Results response_data results \<Rightarrow>
          if \<not> truthy results then empty_results cfg batch messages c io s
          else
            (case calculate_cost (pricing_df cfg) (model_name cfg) c of
               Inl e \<Rightarrow> (s, Inl e)
             | Inr cost \<Rightarrow>
                 (case make_result_row batch results of
                    Inl e \<Rightarrow> (s, Inl e)
                  | Inr result_row \<Rightarrow>
                      (case write_csv result_row (sink io) s of
                         (s', Some e) \<Rightarrow> (s', Inl e)
                       | (s', None) \<Rightarrow> (count_completed cost c s', Inr (Completed c))))))"

text \<open>The outer handler (lines 272 to 279).\<close>

definition handle_exception :: "batch_row \<Rightarrow> py_error \<Rightarrow> sys \<Rightarrow> sys \<times> task" where
  "handle_exception batch e s =
     (count_failed (log_add ERROR (Error_processing_batch (batch_id batch) e) s),
      Failed (Uncaught e))"

definition settle_try :: "batch_row \<Rightarrow> sys \<times> (py_error + task) \<Rightarrow> sys \<times> task" where
  "settle_try batch r =
     (case r of
        (s, Inl e) \<Rightarrow> handle_exception batch e s
      | (s, Inr t) \<Rightarrow> (s, t))"

definition release :: "sys \<Rightarrow> sys" where
  "release s = s\<lparr>semaphore := semaphore s + 1\<rparr>"

definition set_task :: "nat \<Rightarrow> task \<Rightarrow> sys \<Rightarrow> sys" where
  "set_task i t s = s\<lparr>tasks := (tasks s)[i := (fst (tasks s ! i), t)]\<rparr>"

definition end_task :: "nat \<Rightarrow> sys \<times> task \<Rightarrow> sys" where
  "end_task i r = (case r of (s, t) \<Rightarrow> release (set_task i t s))"

section \<open>The run as a sequence of events\<close>

text \<open>
  The tasks run on one event loop: control passes from one to another only where a task
  awaits (the semaphore, the client), and the interrupt handler may set the flag between
  any two steps. A run is the list of these steps in the order they happen.
  \<open>Interrupt\<close>: SIGINT is delivered. \<open>Spawn\<close>: one turn of the loop that creates the
  tasks. \<open>Start i\<close>: task \<open>i\<close> begins and checks the flag. \<open>Acquire i\<close>: it gets a
  slot of the semaphore. \<open>Admit i\<close>: it checks the flag again, counts itself in flight,
  builds its messages and calls the client. \<open>Respond i out io\<close>: the client answers task
  \<open>i\<close> and the task runs to its end. An event that cannot happen in a state leaves it
  as it is.
\<close>

datatype event =
    Interrupt
  | Spawn
  | Start nat
  | Acquire nat
  | Admit nat
  | Respond nat api_outcome io_outcome

definition task_at :: "sys \<Rightarrow> nat \<Rightarrow> (batch_row \<times> task) option" where
  "task_at s i = (if i < length (tasks s) then Some (tasks s ! i) else None)"

text \<open>Lines 283 to 287: the next row gets its task unless the flag is set.\<close>

definition spawn :: "config \<Rightarrow> sys \<Rightarrow> sys" where
  "spawn cfg s =
     (if \<not> spawning s then s
      else if length (tasks s) < length (batches_df cfg) then
        (if shutdown_requested s then s\<lparr>spawning := False\<rparr>
         else s\<lparr>tasks := tasks s @ [(batches_df cfg ! length (tasks s), Created)]\<rparr>)
      else s\<lparr>spawning := False\<rparr>)"

text \<open>Lines 119 to 122. The tasks run once the coordinator awaits them, after the loop.\<close>

definition start :: "nat \<Rightarrow> sys \<Rightarrow> sys" where
  "start i s =
     (if spawning s then s
      else case task_at s i of
        None \<Rightarrow> s
      | Some (batch, t) \<Rightarrow>
          (case t of
             Created \<Rightarrow>
               if shutdown_requested s then set_task i Abandoned s else set_task i Waiting s
           | _ \<Rightarrow> s))"

definition acquire :: "nat \<Rightarrow> sys \<Rightarrow> sys" where
  "acquire i s =
     (case task_at s i of
        None \<Rightarrow> s
      | Some (batch, t) \<Rightarrow>
          (case t of
             Waiting \<Rightarrow>
               if 0 < semaphore s then set_task i Holding (s\<lparr>semaphore := semaphore s - 1\<rparr>)
               else s
           | _ \<Rightarrow> s))"

text \<open>Lines 123 to 166, up to the call of the client.\<close>

definition admit :: "config \<Rightarrow> nat \<Rightarrow> sys \<Rightarrow> sys" where
  "admit cfg i s =
     (case task_at s i of
        None \<Rightarrow> s
      | Some (batch, t) \<Rightarrow>
          (case t of
             Holding \<Rightarrow>
               if shutdown_requested s then release (set_task i Abandoned s)
               else
                 (let s1 = s\<lparr>state := (state s)\<lparr>in_flight := in_flight (state s) + 1\<rparr>\<rparr> in
                  case build_messages (lib cfg) batch of
                    Inl e \<Rightarrow> end_task i (handle_exception batch e s1)
                  | Inr messages \<Rightarrow> set_task i (Dispatched messages) s1)
           | _ \<Rightarrow> s))"

definition respond :: "config \<Rightarrow> nat \<Rightarrow> api_outcome \<Rightarrow> io_outcome \<Rightarrow> sys \<Rightarrow> sys" where
  "respond cfg i out io s =
     (case task_at s i of
        None \<Rightarrow> s
      | Some (batch, t) \<Rightarrow>
          (case t of
             Dispatched messages \<Rightarrow>
               end_task i
                 (settle_try batch
                    (case out of
                       ApiRaises \<Rightarrow> (s, Inl APIError)
                     | ApiReturns c \<Rightarrow> on_completion cfg batch messages c io s))
           | _ \<Rightarrow> s))"

fun step :: "config \<Rightarrow> event \<Rightarrow> sys \<Rightarrow> sys" where
  "step cfg Interrupt s = s\<lparr>shutdown_requested := True\<rparr>"
| "step cfg Spawn s = spawn cfg s"
| "step cfg (Start i) s = start i s"
| "step cfg (Acquire i) s = acquire i s"
| "step cfg (Admit i) s = admit cfg i s"
| "step cfg (Respond i out io) s = respond cfg i out io s"

fun run :: "config \<Rightarrow> event list \<Rightarrow> sys \<Rightarrow> sys" where
  "run cfg [] s = s"
| "run cfg (e # es) s = run cfg es (step cfg e s)"

text \<open>
  Lines 83 to 112: the state at the start of the loop. The flag is a module global and
  may be set already; the output file may be there from an earlier run.
\<close>

definition init :: "bool \<Rightarrow> csv_line list option \<Rightarrow> sys" where
  "init flag file0 =
     \<lparr>shutdown_requested = flag,
      spawning = True,
      semaphore = 50,
      state = \<lparr>completed = 0, failed = 0, in_flight = 0, total_cost = 0,
               total_input_tokens = 0, total_output_tokens = 0,
               csv_file_initialized = False\<rparr>,
      tasks = [],
      output_file = file0,
      debug_files = [],
      logged = []\<rparr>"

fun finished :: "task \<Rightarrow> bool" where
  "finished Abandoned = True"
| "finished (Completed c) = True"
| "finished (Failed f) = True"
| "finished _ = False"

text \<open>\<^verbatim>\<open>asyncio.gather\<close> returns once the loop has ended and every task has.\<close>

definition settled :: "sys \<Rightarrow> bool" where
  "settled s = (\<not> spawning s \<and> list_all (\<lambda>bt. finished (snd bt)) (tasks s))"

section \<open>The coordinator\<close>

record job_config_row =
  Job_Name :: string
  Job_Model :: string
  Temperature :: "cell option"

text \<open>
  What \<^verbatim>\<open>process_batches\<close> is given: its arguments, the library, and the rows of
  \<^verbatim>\<open>Configuration_Files/API_Keys.csv\<close> (\<open>None\<close> when the file cannot be read).
\<close>

record inputs =
  py :: pylib
  batches :: "batch_row list"
  GPA_Job_Configuration :: "job_config_row list option"
  API_Pricing :: "pricing_row list option"
  job_name :: string
  API_Keys_csv :: "string list option"

fun load_api_key :: "string list option \<Rightarrow> string option" where
  "load_api_key None = None"
| "load_api_key (Some []) = None"
| "load_api_key (Some (k # ks)) = Some k"

text \<open>
  Lines 37 to 77. Every check that fails logs one entry and returns; a temperature that
  \<^verbatim>\<open>float\<close> rejects raises to the handler at line 315, which logs and returns too.
\<close>

definition check_configuration :: "inputs \<Rightarrow> (log_level \<times> log_message) + config" where
  "check_configuration inp =
     (if batches inp = [] then Inl (WARNING, No_batches_to_process)
      else case GPA_Job_Configuration inp of
        None \<Rightarrow> Inl (ERROR, Job_configuration_not_in_dict)
      | Some job_config_df \<Rightarrow>
          (case filter (\<lambda>r. Job_Name r = job_name inp) job_config_df of
             [] \<Rightarrow> Inl (ERROR, Job_configuration_not_found (job_name inp))
           | job_config # _ \<Rightarrow>
               (case (case Temperature job_config of None \<Rightarrow> Inr 1 | Some x \<Rightarrow> py_float x) of
                  Inl e \<Rightarrow> Inl (ERROR, Error_in_parallel_processing e)
                | Inr temp \<Rightarrow>
                    (case API_Pricing inp of
                       None \<Rightarrow> Inl (ERROR, Pricing_not_in_dict)
                     | Some pricing \<Rightarrow>
                         (case load_api_key (API_Keys_csv inp) of
                            None \<Rightarrow> Inl (ERROR, Failed_to_load_API_key)
                          | Some my_api_key \<Rightarrow>
                              if my_api_key = [] then Inl (ERROR, Failed_to_load_API_key)
                              else Inr \<lparr>lib = py inp,
                                        batches_df = batches inp,
                                        selected_job_name = job_name inp,
                                        model_name = Job_Model job_config,
                                        temperature = temp,
                                        pricing_df = pricing\<rparr>)))))"

text \<open>
  Lines 292 to 313: the summary. The duration is wall-clock time and is left out; the
  average is the duration over \<open>average_divisor\<close>.
\<close>

record summary =
  total_records :: int
  successfully_processed :: int
  failed_records :: int
  average_divisor :: int
  input_tokens :: int
  output_tokens :: int
  reported_cost :: real

definition final_summary :: "config \<Rightarrow> sys \<Rightarrow> summary" where
  "final_summary cfg s =
     \<lparr>total_records = int (length (batches_df cfg)),
      successfully_processed = completed (state s),
      failed_records = failed (state s),
      average_divisor = max (completed (state s)) 1,
      input_tokens = total_input_tokens (state s),
      output_tokens = total_output_tokens (state s),
      reported_cost = total_cost (state s)\<rparr>"

text \<open>
  What a call of \<^verbatim>\<open>process_batches\<close> has done when the events \<open>evs\<close> have
  happened: what it logged, whether it created the client, the state of the run (none when
  it returned before the loop), and the summary it printed (none while it still awaits
  its tasks), and the content of the results file. It returns \<^verbatim>\<open>None\<close> on every path and raises nothing.
\<close>

record report =
  report_log :: "(log_level \<times> log_message) list"
  client_created :: bool
  final_state :: "sys option"
  results_file :: "csv_line list option"
  printed_summary :: "summary option"

definition process_batches :: "inputs \<Rightarrow> bool \<Rightarrow> csv_line list option \<Rightarrow> event list \<Rightarrow> report" where
  "process_batches inp flag file0 evs =
     (case check_configuration inp of
        Inl entry \<Rightarrow>
          \<lparr>report_log = [entry], client_created = False, final_state = None,
           results_file = file0, printed_summary = None\<rparr>
      | Inr cfg \<Rightarrow>
          (let s = run cfg evs (init flag file0) in
           if settled s then
             \<lparr>report_log =
                logged s @ [(INFO, Processing_complete (completed (state s))
                                     (int (length (batches_df cfg))) (failed (state s))
                                     (total_cost (state s)))],
              client_created = True, final_state = Some s,
              results_file = output_file s,
              printed_summary = Some (final_summary cfg s)\<rparr>
           else
             \<lparr>report_log = logged s, client_created = True, final_state = Some s,
              results_file = output_file s, printed_summary = None\<rparr>))"

section \<open>The main program\<close>

text \<open>
  \<^verbatim>\<open>main\<close> as far as its exit status goes. \<open>load_data\<close> is what
  \<^verbatim>\<open>load_data\<close> returns (\<open>None\<close> where it calls \<^verbatim>\<open>sys.exit(1)\<close> itself: a
  directory or a required file is missing); the job is the one the user picked;
  \<open>context_allocation\<close> says whether \<^verbatim>\<open>allocate_context\<close> returned a non-empty
  dict; \<open>built_batches\<close> is what \<^verbatim>\<open>build_batches\<close> returned.
\<close>

record dataframes =
  df_GPA_Job_Configuration :: "job_config_row list option"
  df_API_Pricing :: "pricing_row list option"

record main_env =
  env_lib :: pylib
  load_data :: "dataframes option"
  selected_job :: string
  context_allocation :: bool
  built_batches :: "batch_row list"
  keys_file :: "string list option"

definition main :: "main_env \<Rightarrow> bool \<Rightarrow> csv_line list option \<Rightarrow> event list \<Rightarrow> int \<times> report option" where
  "main env flag file0 evs =
     (case load_data env of
        None \<Rightarrow> (1, None)
      | Some dataframes_dict \<Rightarrow>
          (case df_GPA_Job_Configuration dataframes_dict of
             None \<Rightarrow> (1, None)
           | Some gpa_job_config \<Rightarrow>
               if \<not> context_allocation env then (1, None)
               else if built_batches env = [] then (1, None)
               else
                 (0, Some (process_batches
                             \<lparr>py = env_lib env,
                              batches = built_batches env,
                              GPA_Job_Configuration = df_GPA_Job_Configuration dataframes_dict,
                              API_Pricing = df_API_Pricing dataframes_dict,
                              job_name = selected_job env,
                              API_Keys_csv = keys_file env\<rparr>
                             flag file0 evs))))"

section \<open>Numbering of the work items\<close>

text \<open>
  Lines 56 to 76 of \<^verbatim>\<open>build_batches\<close>: the records are numbered from 0 in the
  order they are read; the context, the response format and the system role are shared.
  A record is given by its JSON string and its source file.
\<close>

fun number_rows ::
  "int \<Rightarrow> (string \<times> string) list \<Rightarrow> json list \<Rightarrow> json \<Rightarrow> string \<Rightarrow> batch_row list" where
  "number_rows n [] qc rf sr = []"
| "number_rows n (r # rows) qc rf sr =
     \<lparr>batch_id = n, record_json = fst r, source_file = snd r, question_context = qc,
      response_format = rf, system_role = sr\<rparr> # number_rows (n + 1) rows qc rf sr"

definition build_batches ::
  "(string \<times> string) list \<Rightarrow> json list \<Rightarrow> json \<Rightarrow> string \<Rightarrow> batch_row list" where
  "build_batches rows qc rf sr = number_rows 0 rows qc rf sr"

section \<open>Notions of the statements\<close>

fun is_holding :: "task \<Rightarrow> bool" where
  "is_holding Holding = True"
| "is_holding _ = False"

fun is_dispatched :: "task \<Rightarrow> bool" where
  "is_dispatched (Dispatched m) = True"
| "is_dispatched _ = False"

fun is_abandoned :: "task \<Rightarrow> bool" where
  "is_abandoned Abandoned = True"
| "is_abandoned _ = False"

fun is_completed :: "task \<Rightarrow> bool" where
  "is_completed (Completed c) = True"
| "is_completed _ = False"

fun is_failed :: "task \<Rightarrow> bool" where
  "is_failed (Failed f) = True"
| "is_failed _ = False"


definition number_of :: "(task \<Rightarrow> bool) \<Rightarrow> sys \<Rightarrow> int" where
  "number_of P s = int (length (filter (\<lambda>bt. P (snd bt)) (tasks s)))"

text \<open>
  The cost of an item in the spec's words: the rates of the model's pricing row applied to
  the two token counts, and 0 without a pricing row.
\<close>

definition lookup_pricing :: "pricing_row list \<Rightarrow> string \<Rightarrow> (real \<times> real) option" where
  "lookup_pricing pricing m =
     (case filter (\<lambda>r. Model r = m) pricing of
        [] \<Rightarrow> None
      | r # _ \<Rightarrow>
          (case (Input_Cost_Per_Million r, Output_Cost_Per_Million r) of
             (Number input_rate, Number output_rate) \<Rightarrow> Some (input_rate, output_rate)
           | _ \<Rightarrow> None))"

definition spec_cost :: "(real \<times> real) option \<Rightarrow> int \<Rightarrow> int \<Rightarrow> real" where
  "spec_cost rates p c =
     (case rates of
        None \<Rightarrow> 0
      | Some (input_rate, output_rate) \<Rightarrow>
          real_of_int p / 1000000 * input_rate + real_of_int c / 1000000 * output_rate)"

fun cost_of :: "config \<Rightarrow> task \<Rightarrow> real" where
  "cost_of cfg (Completed c) =
     spec_cost (lookup_pricing (pricing_df cfg) (model_name cfg))
       (prompt_tokens c) (completion_tokens c)"
| "cost_of cfg _ = 0"

fun input_tokens_of :: "task \<Rightarrow> int" where
  "input_tokens_of (Completed c) = prompt_tokens c"
| "input_tokens_of _ = 0"

fun output_tokens_of :: "task \<Rightarrow> int" where
  "output_tokens_of (Completed c) = completion_tokens c"
| "output_tokens_of _ = 0"






section \<open>Invariants of a run\<close>

text \<open>
  The counters agree with where the tasks stand, and every slot of the semaphore is free
  or held by a task that is holding or dispatched.
\<close>

definition accounts :: "sys \<Rightarrow> bool" where
  "accounts s =
     (in_flight (state s) = number_of is_dispatched s \<and>
      completed (state s) = number_of is_completed s \<and>
      failed (state s) = number_of is_failed s \<and>
      semaphore s + number_of is_holding s + number_of is_dispatched s = 50 \<and>
      0 \<le> semaphore s)"

text \<open>The tasks created so far are those of the first rows, in order.\<close>

definition in_order :: "config \<Rightarrow> sys \<Rightarrow> bool" where
  "in_order cfg s =
     (length (tasks s) \<le> length (batches_df cfg) \<and>
      map fst (tasks s) = take (length (tasks s)) (batches_df cfg))"

text \<open>The loop ends early only when the flag is set, and only then is a task abandoned.\<close>

definition unless_cancelled :: "config \<Rightarrow> sys \<Rightarrow> bool" where
  "unless_cancelled cfg s =
     (shutdown_requested s \<or>
      ((spawning s \<or> length (tasks s) = length (batches_df cfg)) \<and>
       number_of is_abandoned s = 0))"

definition totals :: "config \<Rightarrow> sys \<Rightarrow> bool" where
  "totals cfg s =
     (total_cost (state s) = (\<Sum>bt\<leftarrow>tasks s. cost_of cfg (snd bt)) \<and>
      total_input_tokens (state s) = (\<Sum>bt\<leftarrow>tasks s. input_tokens_of (snd bt)) \<and>
      total_output_tokens (state s) = (\<Sum>bt\<leftarrow>tasks s. output_tokens_of (snd bt)))"



section \<open>Concrete runs\<close>

text \<open>
  A decoder that knows three documents, two work items without question context, a pricing
  row of 1 and 2 per million tokens, and the answers and outcomes used below.
\<close>

definition demo_lib :: pylib where
  "demo_lib =
     \<lparr>json_loads = (\<lambda>s.
        if s = ''ROLE'' then Some (JObj [(''role'', JStr ''system''), (''content'', JStr ''auditor'')])
        else if s = ''GOOD'' then Some (JObj [(''results'', JArr [JObj [(''answer'', JStr ''yes'')]])])
        else if s = ''EMPTY'' then Some (JObj [(''results'', JArr [])])
        else None),
      json_dumps = (\<lambda>j. ''CONTEXT'')\<rparr>"

definition demo_batches :: "batch_row list" where
  "demo_batches =
     build_batches [(''{}'', ''a.csv''), (''{}'', ''b.csv'')] []
       (JObj [(''type'', JStr ''json_schema''), (''json_schema'', JObj [(''name'', JStr ''job'')])])
       ''ROLE''"

definition demo_config :: config where
  "demo_config =
     \<lparr>lib = demo_lib, batches_df = demo_batches, selected_job_name = ''job'',
      model_name = ''gpt'', temperature = 1,
      pricing_df = [\<lparr>Model = ''gpt'', Input_Cost_Per_Million = Number 1,
                     Output_Cost_Per_Million = Number 2\<rparr>]\<rparr>"

definition answer :: "string \<Rightarrow> completion" where
  "answer doc =
     \<lparr>message_content = Some doc, finish_reason = ''stop'', refusal = None,
      prompt_tokens = 100, completion_tokens = 50\<rparr>"

definition io_at :: "string \<Rightarrow> write_outcome \<Rightarrow> io_outcome" where
  "io_at t w = \<lparr>now = t, debug_dump_ok = True, sink = w\<rparr>"

definition io_ok :: io_outcome where
  "io_ok = io_at ''20240101_000000'' WriteOk"

text \<open>Both tasks are created, admitted and dispatched.\<close>

definition both_dispatched :: "event list" where
  "both_dispatched =
     [Spawn, Spawn, Spawn, Start 0, Start 1, Acquire 0, Acquire 1, Admit 0, Admit 1]"

text \<open>The first task gets a good answer, the call of the second raises.\<close>

definition one_completes_one_fails :: "event list" where
  "one_completes_one_fails =
     both_dispatched
     @ [Respond 0 (ApiReturns (answer ''GOOD'')) io_ok, Respond 1 ApiRaises io_ok]"

text \<open>The first task gets a good answer and its write to the output file raises.\<close>

definition sink_write_fails :: "event list" where
  "sink_write_fails =
     both_dispatched
     @ [Respond 0 (ApiReturns (answer ''GOOD'')) (io_at ''20240101_000000'' (WriteRaises None)),
        Respond 1 ApiRaises io_ok]"


definition batch_with_context :: batch_row where
  "batch_with_context =
     \<lparr>batch_id = 0, record_json = ''{}'', source_file = ''a.csv'',
      question_context = [JObj [(''example'', JStr ''x'')]],
      response_format = JObj [], system_role = ''ROLE''\<rparr>"

definition batch_without_context :: batch_row where
  "batch_without_context = batch_with_context\<lparr>question_context := []\<rparr>"

text \<open>
  Inputs of \<^verbatim>\<open>process_batches\<close> without batches, and a program run in which
  \<^verbatim>\<open>API_Keys.csv\<close> holds its header line and no key.
\<close>

definition inputs_without_batches :: inputs where
  "inputs_without_batches =
     \<lparr>py = demo_lib, batches = [],
      GPA_Job_Configuration = Some [\<lparr>Job_Name = ''job'', Job_Model = ''gpt'', Temperature = None\<rparr>],
      API_Pricing = Some [], job_name = ''job'', API_Keys_csv = Some [''sk-key'']\<rparr>"

definition env_without_key :: main_env where
  "env_without_key =
     \<lparr>env_lib = demo_lib,
      load_data = Some \<lparr>df_GPA_Job_Configuration =
                          Some [\<lparr>Job_Name = ''job'', Job_Model = ''gpt'', Temperature = None\<rparr>],
                        df_API_Pricing = Some []\<rparr>,
      selected_job = ''job'',
      context_allocation = True,
      built_batches = demo_batches,
      keys_file = Some []\<rparr>"

text \<open>The state that \<open>both_dispatched\<close> leads to from the start.\<close>

definition demo_messages :: "message list" where
  "demo_messages =
     [\<lparr>role = ''developer'', content = JStr ''auditor''\<rparr>,
      \<lparr>role = ''user'',
       content = JStr ''Here is the record I want reviewed. Provide a detailed response.''\<rparr>,
      \<lparr>role = ''user'', content = JStr ''[{}]''\<rparr>]"

definition in_flight_both :: sys where
  "in_flight_both =
     \<lparr>shutdown_requested = False, spawning = False, semaphore = 48,
      state = \<lparr>completed = 0, failed = 0, in_flight = 2, total_cost = 0,
               total_input_tokens = 0, total_output_tokens = 0,
               csv_file_initialized = False\<rparr>,
      tasks = [(demo_batches ! 0, Dispatched demo_messages),
               (demo_batches ! 1, Dispatched demo_messages)],
      output_file = None, debug_files = [], logged = []\<rparr>"





section \<open>The steps of a run, abstractly\<close>

text \<open>The counters of the shared state, and a task \<open>i\<close> going from \<open>t\<close> to \<open>t'\<close>.\<close>

definition counters :: "sys \<Rightarrow> int \<times> int \<times> int \<times> real \<times> int \<times> int" where
  "counters s =
     (completed (state s), failed (state s), in_flight (state s), total_cost (state s),
      total_input_tokens (state s), total_output_tokens (state s))"

definition moves :: "sys \<Rightarrow> sys \<Rightarrow> nat \<Rightarrow> task \<Rightarrow> task \<Rightarrow> bool" where
  "moves s s' i t t' =
     (i < length (tasks s) \<and> snd (tasks s ! i) = t \<and>
      tasks s' = (tasks s)[i := (fst (tasks s ! i), t')] \<and>
      shutdown_requested s' = shutdown_requested s \<and> spawning s' = spawning s)"

text \<open>
  The steps of a run, seen through the flag, the loop, the semaphore, the counters and the
  places of the tasks. Every event but the interrupt that changes the state is one of these.
\<close>

inductive transition :: "config \<Rightarrow> sys \<Rightarrow> sys \<Rightarrow> bool" for cfg :: config where
  spawn_task:
    "\<lbrakk>spawning s; \<not> shutdown_requested s; length (tasks s) < length (batches_df cfg);
      tasks s' = tasks s @ [(batches_df cfg ! length (tasks s), Created)];
      spawning s'; shutdown_requested s' = shutdown_requested s;
      semaphore s' = semaphore s; counters s' = counters s\<rbrakk>
     \<Longrightarrow> transition cfg s s'"
| spawn_end:
    "\<lbrakk>spawning s; shutdown_requested s \<or> length (batches_df cfg) \<le> length (tasks s);
      tasks s' = tasks s; \<not> spawning s'; shutdown_requested s' = shutdown_requested s;
      semaphore s' = semaphore s; counters s' = counters s\<rbrakk>
     \<Longrightarrow> transition cfg s s'"
| start_wait:
    "\<lbrakk>\<not> spawning s; \<not> shutdown_requested s; moves s s' i Created Waiting;
      semaphore s' = semaphore s; counters s' = counters s\<rbrakk>
     \<Longrightarrow> transition cfg s s'"
| start_abandon:
    "\<lbrakk>\<not> spawning s; shutdown_requested s; moves s s' i Created Abandoned;
      semaphore s' = semaphore s; counters s' = counters s\<rbrakk>
     \<Longrightarrow> transition cfg s s'"
| acquire_slot:
    "\<lbrakk>0 < semaphore s; moves s s' i Waiting Holding;
      semaphore s' = semaphore s - 1; counters s' = counters s\<rbrakk>
     \<Longrightarrow> transition cfg s s'"
| admit_abandon:
    "\<lbrakk>shutdown_requested s; moves s s' i Holding Abandoned;
      semaphore s' = semaphore s + 1; counters s' = counters s\<rbrakk>
     \<Longrightarrow> transition cfg s s'"
| admit_dispatch:
    "\<lbrakk>\<not> shutdown_requested s; moves s s' i Holding (Dispatched m);
      semaphore s' = semaphore s;
      counters s' = (completed (state s), failed (state s), in_flight (state s) + 1,
                     total_cost (state s), total_input_tokens (state s),
                     total_output_tokens (state s))\<rbrakk>
     \<Longrightarrow> transition cfg s s'"
| admit_fail:
    "\<lbrakk>\<not> shutdown_requested s; moves s s' i Holding (Failed f);
      semaphore s' = semaphore s + 1;
      counters s' = (completed (state s), failed (state s) + 1, in_flight (state s),
                     total_cost (state s), total_input_tokens (state s),
                     total_output_tokens (state s))\<rbrakk>
     \<Longrightarrow> transition cfg s s'"
| respond_fail:
    "\<lbrakk>moves s s' i (Dispatched m) (Failed f);
      semaphore s' = semaphore s + 1;
      counters s' = (completed (state s), failed (state s) + 1, in_flight (state s) - 1,
                     total_cost (state s), total_input_tokens (state s),
                     total_output_tokens (state s))\<rbrakk>
     \<Longrightarrow> transition cfg s s'"
| respond_complete:
    "\<lbrakk>moves s s' i (Dispatched m) (Completed c);
      calculate_cost (pricing_df cfg) (model_name cfg) c = Inr (cost_of cfg (Completed c));
      semaphore s' = semaphore s + 1;
      counters s' = (completed (state s) + 1, failed (state s), in_flight (state s) - 1,
                     total_cost (state s) + cost_of cfg (Completed c),
                     total_input_tokens (state s) + prompt_tokens c,
                     total_output_tokens (state s) + completion_tokens c)\<rbrakk>
     \<Longrightarrow> transition cfg s s'"

text \<open>A task that completed was priced by \<open>calculate_cost\<close> at the cost the spec gives.\<close>

fun priced_as_specified :: "config \<Rightarrow> task \<Rightarrow> bool" where
  "priced_as_specified cfg (Completed c) =
     (calculate_cost (pricing_df cfg) (model_name cfg) c = Inr (cost_of cfg (Completed c)))"
| "priced_as_specified cfg _ = True"

definition priced :: "config \<Rightarrow> sys \<Rightarrow> bool" where
  "priced cfg s = list_all (\<lambda>bt. priced_as_specified cfg (snd bt)) (tasks s)"

definition invariant :: "config \<Rightarrow> sys \<Rightarrow> bool" where
  "invariant cfg s =
     (accounts s \<and> in_order cfg s \<and> unless_cancelled cfg s \<and> totals cfg s \<and> priced cfg s)"



section \<open>What one answer does to the shared state\<close>

lemma calculate_cost_spec:
  "calculate_cost pricing m c = Inr x \<Longrightarrow>
   x = spec_cost (lookup_pricing pricing m) (prompt_tokens c) (completion_tokens c)"
  unfolding calculate_cost_def lookup_pricing_def spec_cost_def
  by (auto split: list.splits sum.splits cell.splits)

lemma empty_results_effect:
  assumes "empty_results cfg b m c io s = (s1, r)"
  shows "tasks s1 = tasks s \<and> semaphore s1 = semaphore s \<and>
         shutdown_requested s1 = shutdown_requested s \<and> spawning s1 = spawning s \<and>
         output_file s1 = output_file s \<and>
         csv_file_initialized (state s1) = csv_file_initialized (state s) \<and>
         (case r of
            Inl e \<Rightarrow> counters s1 = counters s
          | Inr t \<Rightarrow> t = Failed EmptyResult \<and>
              counters s1 = (completed (state s), failed (state s) + 1, in_flight (state s) - 1,
                             total_cost (state s), total_input_tokens (state s),
                             total_output_tokens (state s)))"
  using assms unfolding empty_results_def log_add_def count_failed_def counters_def Let_def
  by (auto split: sum.splits if_splits)

lemma write_csv_effect:
  assumes "write_csv row w s = (s1, r)"
  shows "tasks s1 = tasks s \<and> semaphore s1 = semaphore s \<and>
         shutdown_requested s1 = shutdown_requested s \<and> spawning s1 = spawning s \<and>
         counters s1 = counters s \<and> debug_files s1 = debug_files s \<and> logged s1 = logged s"
  using assms unfolding write_csv_def counters_def
  by (auto split: write_outcome.splits if_splits)

lemma on_completion_effect:
  assumes "on_completion cfg b m c io s = (s1, r)"
  shows "tasks s1 = tasks s \<and> semaphore s1 = semaphore s \<and>
         shutdown_requested s1 = shutdown_requested s \<and> spawning s1 = spawning s \<and>
         (case r of
            Inl e \<Rightarrow> counters s1 = counters s
          | Inr t \<Rightarrow>
              (\<exists>f. t = Failed f \<and>
                 counters s1 = (completed (state s), failed (state s) + 1, in_flight (state s) - 1,
                                total_cost (state s), total_input_tokens (state s),
                                total_output_tokens (state s))) \<or>
              (t = Completed c \<and>
                 calculate_cost (pricing_df cfg) (model_name cfg) c
                   = Inr (cost_of cfg (Completed c)) \<and>
                 counters s1 = (completed (state s) + 1, failed (state s), in_flight (state s) - 1,
                                total_cost (state s) + cost_of cfg (Completed c),
                                total_input_tokens (state s) + prompt_tokens c,
                                total_output_tokens (state s) + completion_tokens c)))"
proof (cases "parse_response (lib cfg) c")
  case (Raised e)
  with assms show ?thesis
    by (auto simp: on_completion_def log_add_def counters_def Let_def)
next
  case Unparseable
  with assms show ?thesis
    by (auto simp: on_completion_def log_add_def count_failed_def counters_def Let_def)
next
  case (Results response_data results)
  show ?thesis
  proof (cases "truthy results")
    case False
    with Results assms
    have "empty_results cfg b m c io (log_add DEBUG (API_response (batch_id b)) s) = (s1, r)"
      by (simp add: on_completion_def Let_def)
    from empty_results_effect [OF this] show ?thesis
      by (auto simp: log_add_def counters_def split: sum.splits)
  next
    case True
    show ?thesis
    proof (cases "calculate_cost (pricing_df cfg) (model_name cfg) c")
      case (Inl e)
      with True Results assms show ?thesis
        by (auto simp: on_completion_def log_add_def counters_def Let_def)
    next
      case (Inr cost)
      note cost = calculate_cost_spec [OF Inr]
      show ?thesis
      proof (cases "make_result_row b results")
        case (Inl e)
        with Inr True Results assms show ?thesis
          by (auto simp: on_completion_def log_add_def counters_def Let_def)
      next
        case row: (Inr result_row)
        obtain s2 w where w: "write_csv result_row (sink io)
                                (log_add DEBUG (API_response (batch_id b)) s) = (s2, w)"
          by (cases "write_csv result_row (sink io)
                       (log_add DEBUG (API_response (batch_id b)) s)") auto
        note eff = write_csv_effect [OF w]
        show ?thesis
        proof (cases w)
          case None
          with w row Inr True Results assms
          have "s1 = count_completed cost c s2" "r = Inr (Completed c)"
            by (auto simp: on_completion_def Let_def)
          with eff cost Inr show ?thesis
            by (auto simp: count_completed_def counters_def log_add_def)
        next
          case (Some e)
          with w row Inr True Results assms
          have "s1 = s2" "r = Inl e"
            by (auto simp: on_completion_def Let_def)
          with eff show ?thesis
            by (auto simp: counters_def log_add_def)
        qed
      qed
    qed
  qed
qed

section \<open>Every step is a transition\<close>

lemma moves_set_task:
  "i < length (tasks s) \<Longrightarrow> tasks s ! i = (b, t) \<Longrightarrow> tasks s1 = tasks s \<Longrightarrow>
   shutdown_requested s1 = shutdown_requested s \<Longrightarrow> spawning s1 = spawning s \<Longrightarrow>
   moves s (release (set_task i t' s1)) i t t'"
  by (simp add: moves_def set_task_def release_def)

lemma handle_exception_effect:
  "handle_exception b e s = (s1, t) \<Longrightarrow>
   t = Failed (Uncaught e) \<and> tasks s1 = tasks s \<and> semaphore s1 = semaphore s \<and>
   shutdown_requested s1 = shutdown_requested s \<and> spawning s1 = spawning s \<and>
   output_file s1 = output_file s \<and>
   csv_file_initialized (state s1) = csv_file_initialized (state s) \<and>
   counters s1 = (completed (state s), failed (state s) + 1, in_flight (state s) - 1,
                  total_cost (state s), total_input_tokens (state s),
                  total_output_tokens (state s))"
  by (auto simp: handle_exception_def count_failed_def log_add_def counters_def)

lemma counters_release_set_task:
  "counters (release (set_task i t s)) = counters s"
  "semaphore (release (set_task i t s)) = semaphore s + 1"
  by (simp_all add: counters_def release_def set_task_def)

lemma respond_transition:
  "respond cfg i out io s = s \<or> transition cfg s (respond cfg i out io s)"
proof (cases "task_at s i")
  case None
  then show ?thesis by (simp add: respond_def)
next
  case (Some bt)
  obtain b t where bt: "bt = (b, t)" by (cases bt)
  from Some bt have i: "i < length (tasks s)" and at: "tasks s ! i = (b, t)"
    by (auto simp: task_at_def split: if_splits)
  show ?thesis
  proof (cases "is_dispatched t")
    case False
    with Some bt show ?thesis by (cases t) (simp_all add: respond_def)
  next
    case True
    then obtain m where t: "t = Dispatched m" by (cases t) auto
    define r where "r = (case out of ApiRaises \<Rightarrow> (s, Inl APIError)
                         | ApiReturns c \<Rightarrow> on_completion cfg b m c io s)"
    obtain s1 res where r: "r = (s1, res)" by (cases r)
    have s': "respond cfg i out io s = end_task i (settle_try b (s1, res))"
      using Some bt t r by (simp add: respond_def r_def)
    have frame: "tasks s1 = tasks s \<and> semaphore s1 = semaphore s \<and>
         shutdown_requested s1 = shutdown_requested s \<and> spawning s1 = spawning s"
      using r on_completion_effect [of cfg b m _ io s s1 res]
      by (auto simp: r_def split: api_outcome.splits)
    show ?thesis
    proof (cases res)
      case (Inl e)
      have c1: "counters s1 = counters s"
        using r Inl on_completion_effect [of cfg b m _ io s s1 res]
        by (auto simp: r_def split: api_outcome.splits)
      obtain s2 t2 where h: "handle_exception b e s1 = (s2, t2)"
        by (cases "handle_exception b e s1")
      note eff = handle_exception_effect [OF h]
      have s'': "respond cfg i out io s = release (set_task i (Failed (Uncaught e)) s2)"
        using s' Inl h eff by (simp add: settle_try_def end_task_def)
      have "moves s (respond cfg i out io s) i (Dispatched m) (Failed (Uncaught e))"
        unfolding s'' t [symmetric]
        using i at frame eff by (intro moves_set_task) (auto simp: t)
      moreover have "semaphore (respond cfg i out io s) = semaphore s + 1"
        unfolding s'' using frame eff by (simp add: counters_release_set_task)
      moreover have "counters (respond cfg i out io s) =
          (completed (state s), failed (state s) + 1, in_flight (state s) - 1,
           total_cost (state s), total_input_tokens (state s), total_output_tokens (state s))"
        unfolding s'' counters_release_set_task using eff c1 by (simp add: counters_def)
      ultimately show ?thesis by (blast intro: transition.respond_fail)
    next
      case (Inr t2)
      then obtain c where out: "out = ApiReturns c"
        using r by (cases out) (auto simp: r_def)
      with r have oc: "on_completion cfg b m c io s = (s1, Inr t2)"
        using Inr by (simp add: r_def)
      note eff = on_completion_effect [OF oc]
      have s'': "respond cfg i out io s = release (set_task i t2 s1)"
        using s' Inr by (simp add: settle_try_def end_task_def)
      have mv: "moves s (respond cfg i out io s) i (Dispatched m) t2"
        unfolding s'' using i at frame by (intro moves_set_task) (auto simp: t)
      have sem: "semaphore (respond cfg i out io s) = semaphore s + 1"
        unfolding s'' using frame by (simp add: counters_release_set_task)
      have cnt: "counters (respond cfg i out io s) = counters s1"
        unfolding s'' by (simp add: counters_release_set_task)
      from eff consider
        (f) f where "t2 = Failed f" "counters s1 = (completed (state s), failed (state s) + 1,
              in_flight (state s) - 1, total_cost (state s), total_input_tokens (state s),
              total_output_tokens (state s))"
        | (c) "t2 = Completed c"
              "calculate_cost (pricing_df cfg) (model_name cfg) c = Inr (cost_of cfg (Completed c))"
              "counters s1 = (completed (state s) + 1, failed (state s),
              in_flight (state s) - 1, total_cost (state s) + cost_of cfg (Completed c),
              total_input_tokens (state s) + prompt_tokens c,
              total_output_tokens (state s) + completion_tokens c)"
        by auto
      then show ?thesis
      proof cases
        case f
        with mv sem cnt show ?thesis by (auto intro: transition.respond_fail)
      next
        case c
        with mv sem cnt show ?thesis by (auto intro: transition.respond_complete)
      qed
    qed
  qed
qed

lemma moves_set_task_only:
  "i < length (tasks s) \<Longrightarrow> tasks s ! i = (b, t) \<Longrightarrow> tasks s1 = tasks s \<Longrightarrow>
   shutdown_requested s1 = shutdown_requested s \<Longrightarrow> spawning s1 = spawning s \<Longrightarrow>
   moves s (set_task i t' s1) i t t'"
  by (simp add: moves_def set_task_def)

lemma state_release_set_task: "state (release (set_task i t s)) = state s"
  by (simp add: release_def set_task_def)

lemma spawn_transition: "spawn cfg s = s \<or> transition cfg s (spawn cfg s)"
proof (cases "spawning s")
  case False
  then show ?thesis by (simp add: spawn_def)
next
  case True
  show ?thesis
  proof (cases "\<not> shutdown_requested s \<and> length (tasks s) < length (batches_df cfg)")
    case True
    with \<open>spawning s\<close> have "transition cfg s (spawn cfg s)"
      by (intro transition.spawn_task) (simp_all add: spawn_def counters_def)
    then show ?thesis ..
  next
    case False
    with \<open>spawning s\<close> have "transition cfg s (spawn cfg s)"
      by (intro transition.spawn_end) (auto simp: spawn_def counters_def)
    then show ?thesis ..
  qed
qed

lemma task_at_Some:
  "task_at s i = Some (b, t) \<Longrightarrow> i < length (tasks s) \<and> tasks s ! i = (b, t)"
  by (auto simp: task_at_def split: if_splits)

lemma start_transition: "start i s = s \<or> transition cfg s (start i s)"
proof (cases "task_at s i")
  case None
  then show ?thesis by (simp add: start_def)
next
  case (Some bt)
  obtain b t where bt: "bt = (b, t)" by (cases bt)
  note at = task_at_Some [OF Some [unfolded bt]]
  show ?thesis
  proof (cases "\<not> spawning s \<and> t = Created")
    case False
    with Some bt show ?thesis by (cases t) (auto simp: start_def)
  next
    case True
    show ?thesis
    proof (cases "shutdown_requested s")
      case True
      with \<open>\<not> spawning s \<and> t = Created\<close> Some bt
      have eq: "start i s = set_task i Abandoned s" by (simp add: start_def)
      have "transition cfg s (start i s)"
        unfolding eq using True \<open>\<not> spawning s \<and> t = Created\<close> at
        by (intro transition.start_abandon [where i = i] moves_set_task_only [where b = b])
           (auto simp: set_task_def counters_def)
      then show ?thesis ..
    next
      case False
      with \<open>\<not> spawning s \<and> t = Created\<close> Some bt
      have eq: "start i s = set_task i Waiting s" by (simp add: start_def)
      have "transition cfg s (start i s)"
        unfolding eq using False \<open>\<not> spawning s \<and> t = Created\<close> at
        by (intro transition.start_wait [where i = i] moves_set_task_only [where b = b])
           (auto simp: set_task_def counters_def)
      then show ?thesis ..
    qed
  qed
qed

lemma acquire_transition: "acquire i s = s \<or> transition cfg s (acquire i s)"
proof (cases "task_at s i")
  case None
  then show ?thesis by (simp add: acquire_def)
next
  case (Some bt)
  obtain b t where bt: "bt = (b, t)" by (cases bt)
  note at = task_at_Some [OF Some [unfolded bt]]
  show ?thesis
  proof (cases "t = Waiting \<and> 0 < semaphore s")
    case False
    with Some bt show ?thesis by (cases t) (auto simp: acquire_def)
  next
    case True
    with Some bt
    have eq: "acquire i s = set_task i Holding (s\<lparr>semaphore := semaphore s - 1\<rparr>)"
      by (simp add: acquire_def)
    have "transition cfg s (acquire i s)"
      unfolding eq using True at
      by (intro transition.acquire_slot [where i = i] moves_set_task_only [where b = b])
         (auto simp: set_task_def counters_def)
    then show ?thesis ..
  qed
qed

lemma admit_transition: "admit cfg i s = s \<or> transition cfg s (admit cfg i s)"
proof (cases "task_at s i")
  case None
  then show ?thesis by (simp add: admit_def)
next
  case (Some bt)
  obtain b t where bt: "bt = (b, t)" by (cases bt)
  note at = task_at_Some [OF Some [unfolded bt]]
  show ?thesis
  proof (cases "t = Holding")
    case False
    with Some bt show ?thesis by (cases t) (auto simp: admit_def)
  next
    case True
    show ?thesis
    proof (cases "shutdown_requested s")
      case sd: True
      with True Some bt
      have eq: "admit cfg i s = release (set_task i Abandoned s)" by (simp add: admit_def)
      have "transition cfg s (admit cfg i s)"
        unfolding eq using True sd at
        by (intro transition.admit_abandon [where i = i] moves_set_task [where b = b])
           (auto simp: counters_release_set_task)
      then show ?thesis ..
    next
      case sd: False
      define s1 where "s1 = s\<lparr>state := (state s)\<lparr>in_flight := in_flight (state s) + 1\<rparr>\<rparr>"
      show ?thesis
      proof (cases "build_messages (lib cfg) b")
        case (Inl e)
        obtain s2 t2 where h: "handle_exception b e s1 = (s2, t2)"
          by (cases "handle_exception b e s1")
        note eff = handle_exception_effect [OF h]
        from True sd Some bt Inl h eff
        have eq: "admit cfg i s = release (set_task i (Failed (Uncaught e)) s2)"
          by (simp add: admit_def end_task_def s1_def)
        have "transition cfg s (admit cfg i s)"
          unfolding eq using True sd at eff
          by (intro transition.admit_fail [where i = i and f = "Uncaught e"]
                    moves_set_task [where b = b])
             (auto simp: counters_release_set_task(2) state_release_set_task s1_def counters_def)
        then show ?thesis ..
      next
        case (Inr m)
        from True sd Some bt Inr
        have eq: "admit cfg i s = set_task i (Dispatched m) s1"
          by (simp add: admit_def s1_def)
        have "transition cfg s (admit cfg i s)"
          unfolding eq using True sd at
          by (intro transition.admit_dispatch [where i = i and m = m]
                    moves_set_task_only [where b = b])
             (auto simp: s1_def counters_def set_task_def)
        then show ?thesis ..
      qed
    qed
  qed
qed

lemma step_transition:
  "step cfg e s = s \<or> (e = Interrupt \<and> step cfg e s = s\<lparr>shutdown_requested := True\<rparr>) \<or>
   transition cfg s (step cfg e s)"
proof (cases e)
  case Interrupt
  then show ?thesis by simp
next
  case Spawn
  then show ?thesis using spawn_transition [of cfg s] by auto
next
  case (Start i)
  then show ?thesis using start_transition [of i s cfg] by auto
next
  case (Acquire i)
  then show ?thesis using acquire_transition [of i s cfg] by auto
next
  case (Admit i)
  then show ?thesis using admit_transition [of cfg i s] by auto
next
  case (Respond i out io)
  then show ?thesis using respond_transition [of cfg i out io s] by auto
qed

section \<open>Counting tasks\<close>

lemma filter_update_length:
  "i < length xs \<Longrightarrow>
   int (length (filter P (xs[i := y]))) =
   int (length (filter P xs)) - of_bool (P (xs ! i)) + of_bool (P y)"
proof (induction xs arbitrary: i)
  case Nil
  then show ?case by simp
next
  case (Cons x xs)
  then show ?case by (cases i) auto
qed

lemma sum_list_update_map:
  fixes f :: "'a \<Rightarrow> 'b::ab_group_add"
  shows "i < length xs \<Longrightarrow>
         (\<Sum>x\<leftarrow>xs[i := y]. f x) = (\<Sum>x\<leftarrow>xs. f x) - f (xs ! i) + f y"
proof (induction xs arbitrary: i)
  case Nil
  then show ?case by simp
next
  case (Cons x xs)
  then show ?case by (cases i) (auto simp: algebra_simps)
qed

lemma number_of_moves:
  assumes "moves s s' i t t'"
  shows "number_of P s' = number_of P s - of_bool (P t) + of_bool (P t')"
proof -
  from assms have i: "i < length (tasks s)" and t: "snd (tasks s ! i) = t"
    and s': "tasks s' = (tasks s)[i := (fst (tasks s ! i), t')]"
    by (auto simp: moves_def)
  show ?thesis
    unfolding number_of_def s'
    using filter_update_length [OF i, of "\<lambda>bt. P (snd bt)" "(fst (tasks s ! i), t')"] t
    by simp
qed

lemma number_of_same: "tasks s' = tasks s \<Longrightarrow> number_of P s' = number_of P s"
  by (simp add: number_of_def)

lemma number_of_spawned:
  "tasks s' = tasks s @ [(b, Created)] \<Longrightarrow> number_of P s' = number_of P s + of_bool (P Created)"
  by (simp add: number_of_def)

lemma sum_tasks_moves:
  fixes f :: "task \<Rightarrow> 'b::ab_group_add"
  assumes "moves s s' i t t'"
  shows "(\<Sum>bt\<leftarrow>tasks s'. f (snd bt)) = (\<Sum>bt\<leftarrow>tasks s. f (snd bt)) - f t + f t'"
proof -
  from assms have i: "i < length (tasks s)" and t: "snd (tasks s ! i) = t"
    and s': "tasks s' = (tasks s)[i := (fst (tasks s ! i), t')]"
    by (auto simp: moves_def)
  show ?thesis
    unfolding s'
    using sum_list_update_map [OF i, of "\<lambda>bt. f (snd bt)" "(fst (tasks s ! i), t')"] t
    by simp
qed

lemma accounts_transition:
  assumes "transition cfg s s'" and "accounts s"
  shows "accounts s'"
  using assms
proof cases
  case spawn_task
  with assms(2) show ?thesis
    by (simp add: accounts_def counters_def number_of_spawned [OF spawn_task(4)])
next
  case spawn_end
  with assms(2) show ?thesis
    by (simp add: accounts_def counters_def number_of_same [OF spawn_end(3)])
next
  case (start_wait i)
  with assms(2) show ?thesis
    by (simp add: accounts_def counters_def number_of_moves [OF start_wait(3)])
next
  case (start_abandon i)
  with assms(2) show ?thesis
    by (simp add: accounts_def counters_def number_of_moves [OF start_abandon(3)])
next
  case (acquire_slot i)
  with assms(2) show ?thesis
    by (simp add: accounts_def counters_def number_of_moves [OF acquire_slot(2)])
next
  case (admit_abandon i)
  with assms(2) show ?thesis
    by (simp add: accounts_def counters_def number_of_moves [OF admit_abandon(2)])
next
  case (admit_dispatch i m)
  with assms(2) show ?thesis
    by (simp add: accounts_def counters_def number_of_moves [OF admit_dispatch(2)])
next
  case (admit_fail i f)
  with assms(2) show ?thesis
    by (simp add: accounts_def counters_def number_of_moves [OF admit_fail(2)])
next
  case (respond_fail i m f)
  with assms(2) show ?thesis
    by (simp add: accounts_def counters_def number_of_moves [OF respond_fail(1)])
next
  case (respond_complete i m c)
  with assms(2) show ?thesis
    by (simp add: accounts_def counters_def number_of_moves [OF respond_complete(1)])
qed

section \<open>Invariants are kept by every transition\<close>


lemma moves_fst:
  assumes "moves s s' i t t'"
  shows "map fst (tasks s') = map fst (tasks s)" and "length (tasks s') = length (tasks s)"
proof -
  from assms have i: "i < length (tasks s)"
    and s': "tasks s' = (tasks s)[i := (fst (tasks s ! i), t')]"
    by (auto simp: moves_def)
  show "length (tasks s') = length (tasks s)" by (simp add: s')
  show "map fst (tasks s') = map fst (tasks s)"
    unfolding s' by (simp add: map_update list_update_same_conv i)
qed

lemma in_order_transition:
  assumes "transition cfg s s'" and "in_order cfg s"
  shows "in_order cfg s'"
  using assms
proof cases
  case spawn_task
  with assms(2) show ?thesis
    by (simp add: in_order_def take_Suc_conv_app_nth)
next
  case spawn_end
  with assms(2) show ?thesis by (simp add: in_order_def)
qed (simp_all add: in_order_def moves_fst)

lemma unless_cancelled_transition:
  assumes "transition cfg s s'" and "in_order cfg s" and "unless_cancelled cfg s"
  shows "unless_cancelled cfg s'"
  using assms(1)
proof cases
  case spawn_task
  with assms(3) show ?thesis
    by (simp add: unless_cancelled_def number_of_spawned [OF spawn_task(4)])
next
  case spawn_end
  with assms(2,3) show ?thesis
    by (auto simp: unless_cancelled_def in_order_def number_of_same [OF spawn_end(3)])
next
  case (start_wait i)
  with assms(3) show ?thesis
    by (simp add: unless_cancelled_def number_of_moves [OF start_wait(3)]
                  moves_fst [OF start_wait(3)] moves_def)
next
  case (start_abandon i)
  with assms(3) show ?thesis
    by (simp add: unless_cancelled_def moves_def)
next
  case (acquire_slot i)
  with assms(3) show ?thesis
    by (simp add: unless_cancelled_def number_of_moves [OF acquire_slot(2)]
                  moves_fst [OF acquire_slot(2)] moves_def)
next
  case (admit_abandon i)
  with assms(3) show ?thesis
    by (simp add: unless_cancelled_def moves_def)
next
  case (admit_dispatch i m)
  with assms(3) show ?thesis
    by (simp add: unless_cancelled_def number_of_moves [OF admit_dispatch(2)]
                  moves_fst [OF admit_dispatch(2)] moves_def)
next
  case (admit_fail i f)
  with assms(3) show ?thesis
    by (simp add: unless_cancelled_def number_of_moves [OF admit_fail(2)]
                  moves_fst [OF admit_fail(2)] moves_def)
next
  case (respond_fail i m f)
  with assms(3) show ?thesis
    by (simp add: unless_cancelled_def number_of_moves [OF respond_fail(1)]
                  moves_fst [OF respond_fail(1)] moves_def)
next
  case (respond_complete i m c)
  with assms(3) show ?thesis
    by (simp add: unless_cancelled_def number_of_moves [OF respond_complete(1)]
                  moves_fst [OF respond_complete(1)] moves_def)
qed

lemma totals_transition:
  assumes "transition cfg s s'" and "totals cfg s"
  shows "totals cfg s'"
  using assms
proof cases
  case spawn_task
  with assms(2) show ?thesis by (simp add: totals_def counters_def)
next
  case spawn_end
  with assms(2) show ?thesis by (simp add: totals_def counters_def)
next
  case (start_wait i)
  with assms(2) show ?thesis
    by (simp add: totals_def counters_def sum_tasks_moves [OF start_wait(3)])
next
  case (start_abandon i)
  with assms(2) show ?thesis
    by (simp add: totals_def counters_def sum_tasks_moves [OF start_abandon(3)])
next
  case (acquire_slot i)
  with assms(2) show ?thesis
    by (simp add: totals_def counters_def sum_tasks_moves [OF acquire_slot(2)])
next
  case (admit_abandon i)
  with assms(2) show ?thesis
    by (simp add: totals_def counters_def sum_tasks_moves [OF admit_abandon(2)])
next
  case (admit_dispatch i m)
  with assms(2) show ?thesis
    by (simp add: totals_def counters_def sum_tasks_moves [OF admit_dispatch(2)])
next
  case (admit_fail i f)
  with assms(2) show ?thesis
    by (simp add: totals_def counters_def sum_tasks_moves [OF admit_fail(2)])
next
  case (respond_fail i m f)
  with assms(2) show ?thesis
    by (simp add: totals_def counters_def sum_tasks_moves [OF respond_fail(1)])
next
  case (respond_complete i m c)
  with assms(2) show ?thesis
    by (simp add: totals_def counters_def sum_tasks_moves [OF respond_complete(1)])
qed

lemma list_all_moves:
  assumes "moves s s' i t t'" and "list_all (\<lambda>bt. Q (snd bt)) (tasks s)" and "Q t'"
  shows "list_all (\<lambda>bt. Q (snd bt)) (tasks s')"
proof -
  from assms(1) have s': "tasks s' = (tasks s)[i := (fst (tasks s ! i), t')]"
    by (simp add: moves_def)
  have "set (tasks s') \<subseteq> insert (fst (tasks s ! i), t') (set (tasks s))"
    unfolding s' by (rule set_update_subset_insert)
  with assms(2,3) show ?thesis by (auto simp: list_all_iff)
qed

lemma priced_transition:
  assumes "transition cfg s s'" and "priced cfg s"
  shows "priced cfg s'"
  using assms
  by cases (auto simp: priced_def intro: list_all_moves [where Q = "priced_as_specified cfg"])


section \<open>Invariants of every run\<close>

lemma run_append: "run cfg (es @ es') s = run cfg es' (run cfg es s)"
  by (induction es arbitrary: s) simp_all

lemma invariant_interrupt:
  "invariant cfg s \<Longrightarrow> invariant cfg (s\<lparr>shutdown_requested := True\<rparr>)"
  by (simp add: invariant_def accounts_def in_order_def unless_cancelled_def totals_def
                number_of_def priced_def)

lemma invariant_transition:
  "transition cfg s s' \<Longrightarrow> invariant cfg s \<Longrightarrow> invariant cfg s'"
  unfolding invariant_def
  using accounts_transition in_order_transition unless_cancelled_transition totals_transition
    priced_transition
  by blast

lemma invariant_step: "invariant cfg s \<Longrightarrow> invariant cfg (step cfg e s)"
  using step_transition [of cfg e s] invariant_interrupt invariant_transition by metis

lemma invariant_init: "invariant cfg (init flag file0)"
  by (simp add: invariant_def accounts_def in_order_def unless_cancelled_def totals_def
                number_of_def priced_def init_def)

lemma invariant_run: "invariant cfg s \<Longrightarrow> invariant cfg (run cfg evs s)"
  by (induction evs arbitrary: s) (simp_all add: invariant_step)

lemma invariant_reached: "invariant cfg (run cfg evs (init flag file0))"
  by (rule invariant_run [OF invariant_init])








section \<open>Tasks that ended stay as they are\<close>

lemma moves_keeps_finished:
  assumes "moves s s' j t t'" and "\<not> finished t"
    and "i < length (tasks s)" and "finished (snd (tasks s ! i))"
  shows "tasks s' ! i = tasks s ! i"
proof -
  from assms(1) have j: "snd (tasks s ! j) = t"
    and s': "tasks s' = (tasks s)[j := (fst (tasks s ! j), t')]"
    by (auto simp: moves_def)
  from j assms(2,4) have "i \<noteq> j" by auto
  then show ?thesis by (simp add: s')
qed

lemma transition_length:
  "transition cfg s s' \<Longrightarrow> length (tasks s) \<le> length (tasks s')"
  by (cases rule: transition.cases) (auto simp: moves_def)

lemma transition_keeps_finished:
  assumes "transition cfg s s'" and "i < length (tasks s)" and "finished (snd (tasks s ! i))"
  shows "tasks s' ! i = tasks s ! i"
  using assms(1)
proof cases
  case spawn_task
  with assms(2) show ?thesis by (simp add: nth_append)
next
  case spawn_end
  then show ?thesis by simp
next
  case (start_wait j)
  from moves_keeps_finished [OF start_wait(3) _ assms(2,3)] show ?thesis by simp
next
  case (start_abandon j)
  from moves_keeps_finished [OF start_abandon(3) _ assms(2,3)] show ?thesis by simp
next
  case (acquire_slot j)
  from moves_keeps_finished [OF acquire_slot(2) _ assms(2,3)] show ?thesis by simp
next
  case (admit_abandon j)
  from moves_keeps_finished [OF admit_abandon(2) _ assms(2,3)] show ?thesis by simp
next
  case (admit_dispatch j m)
  from moves_keeps_finished [OF admit_dispatch(2) _ assms(2,3)] show ?thesis by simp
next
  case (admit_fail j f)
  from moves_keeps_finished [OF admit_fail(2) _ assms(2,3)] show ?thesis by simp
next
  case (respond_fail j m f)
  from moves_keeps_finished [OF respond_fail(1) _ assms(2,3)] show ?thesis by simp
next
  case (respond_complete j m c)
  from moves_keeps_finished [OF respond_complete(1) _ assms(2,3)] show ?thesis by simp
qed

lemma step_keeps_finished:
  assumes "i < length (tasks s)" and "finished (snd (tasks s ! i))"
  shows "tasks (step cfg e s) ! i = tasks s ! i"
  using step_transition [of cfg e s] transition_keeps_finished [OF _ assms, of cfg "step cfg e s"]
  by auto

lemma step_length: "length (tasks s) \<le> length (tasks (step cfg e s))"
  using step_transition [of cfg e s] transition_length [of cfg s "step cfg e s"]
  by auto

lemma run_keeps_finished:
  assumes "i < length (tasks s)" and "finished (snd (tasks s ! i))"
  shows "tasks (run cfg evs s) ! i = tasks s ! i"
  using assms
proof (induction evs arbitrary: s)
  case Nil
  then show ?case by simp
next
  case (Cons e evs)
  have eq: "tasks (step cfg e s) ! i = tasks s ! i"
    by (rule step_keeps_finished [OF Cons.prems])
  have len: "i < length (tasks (step cfg e s))"
    using Cons.prems(1) step_length [of s cfg e] by linarith
  from Cons.IH [OF len] eq Cons.prems(2) show ?case by simp
qed

lemma respond_dispatched:
  assumes "task_at s i = Some (batch, Dispatched msgs)"
  shows "respond cfg i (ApiReturns c) io s =
         end_task i (settle_try batch (on_completion cfg batch msgs c io s))"
  using assms by (simp add: respond_def)

lemma respond_keeps_ended:
  assumes "task_at s i = Some (batch, Dispatched msgs)"
    and "tasks (respond cfg i out io s) = (tasks s)[i := (batch, t)]"
    and "finished t"
  shows "tasks (step cfg e (respond cfg i out io s)) ! i = (batch, t)"
proof -
  from assms(1) have i: "i < length (tasks s)" by (simp add: task_at_def split: if_splits)
  with assms(2) have at: "tasks (respond cfg i out io s) ! i = (batch, t)"
    and len: "i < length (tasks (respond cfg i out io s))"
    by simp_all
  from step_keeps_finished [OF len, of cfg e] at assms(3) show ?thesis by simp
qed

section \<open>After the flag is set\<close>








section \<open>Every run can come to its end\<close>






lemma task_atI:
  "i < length (tasks s) \<Longrightarrow> tasks s ! i = (b, t) \<Longrightarrow> task_at s i = Some (b, t)"
  by (simp add: task_at_def)











section \<open>The output file\<close>


















section \<open>Evaluating concrete runs\<close>

lemmas run_defs = both_dispatched_def demo_config_def demo_batches_def build_batches_def
  demo_lib_def answer_def io_ok_def io_at_def init_def
  spawn_def start_def acquire_def admit_def respond_def task_at_def set_task_def
  release_def end_task_def settle_try_def handle_exception_def on_completion_def
  empty_results_def write_csv_def count_failed_def count_completed_def log_add_def
  build_messages_def base_messages_def context_messages_def parse_response_def
  make_result_row_def calculate_cost_def response_format_dict_def response_format_name_def
  Let_def

lemma run_append_both_dispatched:
  "run demo_config (both_dispatched @ evs) (init False None) = run demo_config evs in_flight_both"
proof -
  have "run demo_config both_dispatched (init False None) = in_flight_both"
    by (simp add: run_defs in_flight_both_def demo_messages_def)
  then show ?thesis by (simp add: run_append)
qed


lemma run_one_completes_one_fails:
  "run demo_config one_completes_one_fails (init False None) =
   run demo_config
     [Respond 0 (ApiReturns (answer ''GOOD'')) io_ok, Respond 1 ApiRaises io_ok] in_flight_both"
  by (simp only: one_completes_one_fails_def run_append_both_dispatched)

lemmas demo_defs = in_flight_both_def demo_messages_def demo_config_def demo_batches_def
  build_batches_def demo_lib_def answer_def io_ok_def io_at_def
  respond_def task_at_def set_task_def
  release_def end_task_def settle_try_def handle_exception_def on_completion_def
  empty_results_def write_csv_def count_failed_def count_completed_def log_add_def
  parse_response_def make_result_row_def calculate_cost_def response_format_dict_def
  response_format_name_def Let_def

section \<open>Every item is counted once\<close>



section \<open>The counters stay within their bounds\<close>



section \<open>The reported cost\<close>

text \<open>
  Claim C4. The cost of a successful item is
  \<open>prompt_tokens / 1e6 * input_rate + completion_tokens / 1e6 * output_rate\<close> with the rates
  of the pricing row of the request's model, and 0 when there is no such row
  (\<open>spec_cost\<close> of \<open>lookup_pricing\<close>): this is what \<open>calculate_cost\<close> returned for every
  task that completed, and the total cost of the shared state, which the summary reports,
  is the sum of these costs over the completed tasks (\<open>cost_of\<close> is 0 for every other
  task). Costs are real numbers here: the rounding of floating-point arithmetic is not
  modelled.
\<close>

theorem C4_total_cost_is_sum_of_item_costs:
  "total_cost (state (run cfg evs (init flag file0)))
     = (\<Sum>bt\<leftarrow>tasks (run cfg evs (init flag file0)). cost_of cfg (snd bt)) \<and>
   reported_cost (final_summary cfg (run cfg evs (init flag file0)))
     = (\<Sum>bt\<leftarrow>tasks (run cfg evs (init flag file0)). cost_of cfg (snd bt)) \<and>
   list_all (\<lambda>bt. priced_as_specified cfg (snd bt)) (tasks (run cfg evs (init flag file0)))"
proof -
  have "invariant cfg (run cfg evs (init flag file0))" by (rule invariant_reached)
  then show ?thesis by (simp add: invariant_def totals_def priced_def final_summary_def)
qed

theorem C4_witness:
  "total_cost (state (run demo_config one_completes_one_fails (init False None))) = 2 / 10000 \<and>
   reported_cost (final_summary demo_config
                    (run demo_config one_completes_one_fails (init False None)))
     = (100 / 1000000) * 1 + (50 / 1000000) * 2"
  using C4_total_cost_is_sum_of_item_costs [of demo_config one_completes_one_fails False None]
  unfolding run_one_completes_one_fails by (simp add: demo_defs final_summary_def)

section \<open>The assembled request\<close>

text \<open>
  Claim C7. For a work item whose system role decodes to a dict with a \<open>content\<close>, the
  request holds exactly the three base messages (role text, fixed user prompt, record
  payload) when the question context is empty, with no context section at all, and these
  three followed by the context as developer content (an introduction and the serialised
  context) when it is not. An empty context is never serialised into the request.
\<close>

theorem C7_context_messages_only_for_non_empty_context:
  assumes "json_loads L (system_role batch) = Some system_role_data"
    and "getitem system_role_data ''content'' = Inr role_text"
  shows "build_messages L batch =
     Inr (if question_context batch = [] then
            [\<lparr>role = ''developer'', content = role_text\<rparr>,
             \<lparr>role = ''user'',
              content = JStr ''Here is the record I want reviewed. Provide a detailed response.''\<rparr>,
             \<lparr>role = ''user'', content = JStr (''['' @ record_json batch @ '']'')\<rparr>]
          else
            [\<lparr>role = ''developer'', content = role_text\<rparr>,
             \<lparr>role = ''user'',
              content = JStr ''Here is the record I want reviewed. Provide a detailed response.''\<rparr>,
             \<lparr>role = ''user'', content = JStr (''['' @ record_json batch @ '']'')\<rparr>,
             \<lparr>role = ''developer'',
              content = JStr ''Here is information you can use to help create your response:''\<rparr>,
             \<lparr>role = ''developer'',
              content = JStr (json_dumps L (JArr (question_context batch)))\<rparr>])"
  using assms
  by (simp add: build_messages_def base_messages_def context_messages_def)

theorem C7_witness:
  "json_loads demo_lib (system_role batch_without_context)
     = Some (JObj [(''role'', JStr ''system''), (''content'', JStr ''auditor'')]) \<and>
   getitem (JObj [(''role'', JStr ''system''), (''content'', JStr ''auditor'')]) ''content''
     = Inr (JStr ''auditor'') \<and>
   (case build_messages demo_lib batch_without_context of
      Inr ms \<Rightarrow> length ms = 3 | Inl e \<Rightarrow> False) \<and>
   (case build_messages demo_lib batch_with_context of
      Inr ms \<Rightarrow> length ms = 5 \<and> content (last ms) = JStr ''CONTEXT'' | Inl e \<Rightarrow> False)"
proof -
  have a: "json_loads demo_lib (system_role batch_without_context)
     = Some (JObj [(''role'', JStr ''system''), (''content'', JStr ''auditor'')])"
    and a': "json_loads demo_lib (system_role batch_with_context)
     = Some (JObj [(''role'', JStr ''system''), (''content'', JStr ''auditor'')])"
    by (simp_all add: demo_lib_def batch_without_context_def batch_with_context_def)
  have b: "getitem (JObj [(''role'', JStr ''system''), (''content'', JStr ''auditor'')])
             ''content'' = Inr (JStr ''auditor'')"
    by simp
  from C7_context_messages_only_for_non_empty_context [OF a b]
       C7_context_messages_only_for_non_empty_context [OF a' b] a b
  show ?thesis
    by (simp add: batch_without_context_def batch_with_context_def demo_lib_def)
qed

section \<open>No batches\<close>

text \<open>
  Claim C10. With an empty collection of work items \<^verbatim>\<open>process_batches\<close> logs one
  warning and returns: no client is created, the run never starts, the results file is
  left as it was, and no summary is printed, whatever happens afterwards.
\<close>

theorem C10_no_batches_returns_at_once:
  assumes "batches inp = []"
  shows "process_batches inp flag file0 evs =
           \<lparr>report_log = [(WARNING, No_batches_to_process)], client_created = False,
            final_state = None, results_file = file0, printed_summary = None\<rparr>"
  using assms by (simp add: process_batches_def check_configuration_def)

theorem C10_witness:
  "batches inputs_without_batches = [] \<and>
   client_created (process_batches inputs_without_batches False None [Spawn, Start 0]) = False \<and>
   printed_summary (process_batches inputs_without_batches False None [Spawn, Start 0]) = None \<and>
   results_file (process_batches inputs_without_batches False None [Spawn, Start 0]) = None"
proof -
  have a: "batches inputs_without_batches = []" by (simp add: inputs_without_batches_def)
  from C10_no_batches_returns_at_once [OF a, of False None "[Spawn, Start 0]"] a
  show ?thesis by simp
qed

section \<open>Configuration failures and the exit status\<close>

text \<open>
  Every failed check of \<^verbatim>\<open>process_batches\<close> returns before the client is created and
  before any task exists.
\<close>

lemma configuration_failure_aborts_before_dispatch:
  assumes "check_configuration inp = Inl entry"
  shows "process_batches inp flag file0 evs =
           \<lparr>report_log = [entry], client_created = False, final_state = None,
            results_file = file0, printed_summary = None\<rparr>"
  using assms by (simp add: process_batches_def)

text \<open>
  Claim C6 says that every configuration-level failure makes the process exit with a
  non-zero status. When \<^verbatim>\<open>API_Keys.csv\<close> holds no key, \<^verbatim>\<open>process_batches\<close> logs
  the error and returns, and \<^verbatim>\<open>main\<close> ends normally: the exit status is 0.
\<close>

theorem C6_exit_status_zero_without_api_key:
  "main env_without_key flag file0 evs =
     (0, Some \<lparr>report_log = [(ERROR, Failed_to_load_API_key)], client_created = False,
               final_state = None, results_file = file0, printed_summary = None\<rparr>)"
  by (simp add: main_def env_without_key_def process_batches_def check_configuration_def
                demo_batches_def build_batches_def)

section \<open>A write to the output file that raises\<close>

lemma run_sink_write_fails:
  "run demo_config sink_write_fails (init False None) =
   run demo_config
     [Respond 0 (ApiReturns (answer ''GOOD'')) (io_at ''20240101_000000'' (WriteRaises None)),
      Respond 1 ApiRaises io_ok] in_flight_both"
  by (simp only: sink_write_fails_def run_append_both_dispatched)

text \<open>
  Claim C9 says that an item whose append to the output file fails is still counted as
  completed. In this run the first item gets a good answer and its write raises: it ends
  as failed and \<open>completed\<close> stays 0.
\<close>

theorem C9_counterexample:
  "settled (run demo_config sink_write_fails (init False None)) \<and>
   snd (tasks (run demo_config sink_write_fails (init False None)) ! 0)
     = Failed (Uncaught OSError) \<and>
   completed (state (run demo_config sink_write_fails (init False None))) = 0 \<and>
   failed (state (run demo_config sink_write_fails (init False None))) = 2"
  unfolding run_sink_write_fails by (simp add: demo_defs settled_def)

text \<open>
  Claim C9, amended. If the append to the output file raises for an item that would
  otherwise have completed, the exception is caught by the handler of the task: it is
  logged, the item is counted as failed and not as completed, its cost and tokens are not
  added, its slot is released, no other task is touched, and the task is never run again.
\<close>

theorem C9_sink_failure_is_counted_as_failed:
  assumes "task_at s i = Some (batch, Dispatched msgs)"
    and "parse_response (lib cfg) c = Results response_data results"
    and "truthy results"
    and "calculate_cost (pricing_df cfg) (model_name cfg) c = Inr cost"
    and "make_result_row batch results = Inr result_row"
    and "sink io = WriteRaises left"
    and "s' = respond cfg i (ApiReturns c) io s"
  shows "tasks s' = (tasks s)[i := (batch, Failed (Uncaught OSError))] \<and>
         completed (state s') = completed (state s) \<and>
         failed (state s') = failed (state s) + 1 \<and>
         in_flight (state s') = in_flight (state s) - 1 \<and>
         total_cost (state s') = total_cost (state s) \<and>
         total_input_tokens (state s') = total_input_tokens (state s) \<and>
         total_output_tokens (state s') = total_output_tokens (state s) \<and>
         semaphore s' = semaphore s + 1 \<and>
         logged s' = logged s @ [(DEBUG, API_response (batch_id batch)),
                                 (ERROR, Error_processing_batch (batch_id batch) OSError)] \<and>
         tasks (step cfg e s') ! i = (batch, Failed (Uncaught OSError))"
proof -
  from assms(1) have at: "tasks s ! i = (batch, Dispatched msgs)"
    by (simp add: task_at_def split: if_splits)
  have eq: "s' = release (set_task i (Failed (Uncaught OSError))
                   (count_failed (log_add ERROR (Error_processing_batch (batch_id batch) OSError)
                      ((log_add DEBUG (API_response (batch_id batch)) s)\<lparr>output_file := left\<rparr>))))"
    unfolding assms(7) respond_dispatched [OF assms(1)]
    using assms(2-6)
    by (simp add: on_completion_def write_csv_def settle_try_def handle_exception_def
                  end_task_def Let_def)
  have tasks': "tasks s' = (tasks s)[i := (batch, Failed (Uncaught OSError))]"
    unfolding eq using at
    by (simp add: release_def set_task_def count_failed_def log_add_def)
  have "tasks (step cfg e s') ! i = (batch, Failed (Uncaught OSError))"
    unfolding assms(7)
    by (rule respond_keeps_ended [OF assms(1) tasks' [unfolded assms(7)]]) simp
  moreover have "completed (state s') = completed (state s) \<and>
         failed (state s') = failed (state s) + 1 \<and>
         in_flight (state s') = in_flight (state s) - 1 \<and>
         total_cost (state s') = total_cost (state s) \<and>
         total_input_tokens (state s') = total_input_tokens (state s) \<and>
         total_output_tokens (state s') = total_output_tokens (state s) \<and>
         semaphore s' = semaphore s + 1 \<and>
         logged s' = logged s @ [(DEBUG, API_response (batch_id batch)),
                                 (ERROR, Error_processing_batch (batch_id batch) OSError)]"
    unfolding eq by (simp add: release_def set_task_def count_failed_def log_add_def)
  ultimately show ?thesis using tasks' by simp
qed

theorem C9_witness:
  "task_at in_flight_both 0 = Some (demo_batches ! 0, Dispatched demo_messages) \<and>
   parse_response (lib demo_config) (answer ''GOOD'')
     = Results (JObj [(''results'', JArr [JObj [(''answer'', JStr ''yes'')]])])
               (JArr [JObj [(''answer'', JStr ''yes'')]]) \<and>
   truthy (JArr [JObj [(''answer'', JStr ''yes'')]]) \<and>
   calculate_cost (pricing_df demo_config) (model_name demo_config) (answer ''GOOD'')
     = Inr (1 / 5000) \<and>
   make_result_row (demo_batches ! 0) (JArr [JObj [(''answer'', JStr ''yes'')]])
     = Inr [(''answer'', JStr ''yes''), (''source_file'', JStr ''a.csv''),
            (''batch_id'', JInt 0)] \<and>
   sink (io_at ''20240101_000000'' (WriteRaises None)) = WriteRaises None \<and>
   completed (state (respond demo_config 0 (ApiReturns (answer ''GOOD''))
                       (io_at ''20240101_000000'' (WriteRaises None)) in_flight_both)) = 0 \<and>
   failed (state (respond demo_config 0 (ApiReturns (answer ''GOOD''))
                    (io_at ''20240101_000000'' (WriteRaises None)) in_flight_both)) = 1"
proof -
  have a: "task_at in_flight_both 0 = Some (demo_batches ! 0, Dispatched demo_messages)"
    by (simp add: task_at_def in_flight_both_def)
  have b: "parse_response (lib demo_config) (answer ''GOOD'')
     = Results (JObj [(''results'', JArr [JObj [(''answer'', JStr ''yes'')]])])
               (JArr [JObj [(''answer'', JStr ''yes'')]])"
    by (simp add: parse_response_def demo_config_def demo_lib_def answer_def)
  have c: "truthy (JArr [JObj [(''answer'', JStr ''yes'')]])" by simp
  have d: "calculate_cost (pricing_df demo_config) (model_name demo_config) (answer ''GOOD'')
     = Inr (1 / 5000)"
    by (simp add: calculate_cost_def demo_config_def answer_def)
  have e: "make_result_row (demo_batches ! 0) (JArr [JObj [(''answer'', JStr ''yes'')]])
     = Inr [(''answer'', JStr ''yes''), (''source_file'', JStr ''a.csv''),
            (''batch_id'', JInt 0)]"
    by (simp add: make_result_row_def demo_batches_def build_batches_def)
  have f: "sink (io_at ''20240101_000000'' (WriteRaises None)) = WriteRaises None"
    by (simp add: io_at_def)
  have g: "completed (state in_flight_both) = 0" "failed (state in_flight_both) = 0"
    by (simp_all add: in_flight_both_def)
  from C9_sink_failure_is_counted_as_failed [OF a b c d e f refl] g a b c d e f
  show ?thesis by simp
qed

section \<open>Answers that do not decode, and answers without results\<close>





section \<open>Cancellation\<close>



section \<open>The rows of the output file\<close>





end
